theory Spec2Isabelle
  imports Main "HOL-Library.Word"
begin

section \<open>Python values used by main.py\<close>

text \<open>
  A Python \<open>str\<close> is a list of Unicode code points, a \<open>bytes\<close> object a list of
  octets. \<open>lit\<close> writes an ASCII literal of the source as code points.
\<close>

type_synonym str = "nat list"
type_synonym bytes = "8 word list"

definition lit :: "string \<Rightarrow> str" where
  "lit s = map of_char s"

text \<open>
  The exceptions that reach the handlers of main.py. All of them are subclasses of
  \<open>Exception\<close>, so \<open>except Exception\<close> catches every one; only
  \<open>UnicodeDecodeError\<close> is caught by \<open>except UnicodeDecodeError\<close>
  (\<open>UnicodeError\<close>, its superclass, is not). \<open>Externa\<close> is an exception raised
  inside a collaborator library (poplib, smtplib, telebot, vertexai), tagged with a
  description.
\<close>

datatype excepcion =
    LookupError str
  | UnicodeDecodeError
  | UnicodeError
  | ValueError
  | IndexError
  | TypeError
  | Externa str

text \<open>
  What the interpreter and its standard library supply. None of it is code of the
  repository, so the model takes it as a parameter and the theorems hold for every
  interpreter:
  \<^item> \<open>decode name b\<close> is \<open>b.decode(name)\<close>: the decoded string, or the exception
    that the call raises (\<open>LookupError\<close> when no codec has that name,
    \<open>UnicodeDecodeError\<close> when the codec rejects the bytes, or whatever else the
    look-up or the codec raises);
  \<^item> \<open>to_int\<close> is \<open>int(s)\<close> on a string (\<open>None\<close>: \<open>ValueError\<close>);
  \<^item> \<open>lower\<close> is \<open>str.lower\<close>;
  \<^item> \<open>orden\<close> is the order in which a \<open>for\<close> loop enumerates a set, given the
    elements in insertion order.
\<close>

record runtime =
  decode :: "str \<Rightarrow> bytes \<Rightarrow> excepcion + str"
  to_int :: "str \<Rightarrow> int option"
  lower :: "str \<Rightarrow> str"
  orden :: "str list \<Rightarrow> str list"

text \<open>The first argument of \<open>decodificar_texto\<close>: \<open>bytes\<close>, \<open>str\<close> or \<open>None\<close>.\<close>

datatype texto = TBytes bytes | TStr str | TNone

section \<open>Mail processing utilities\<close>

text \<open>\<open>texto.decode('latin-1', errors='ignore')\<close>: every octet is a code point.\<close>

definition latin1_ignore :: "bytes \<Rightarrow> str" where
  "latin1_ignore b = map unat b"

text \<open>\<open>encoding or 'utf-8'\<close>: \<open>None\<close> and the empty string are falsy.\<close>

definition encoding_or_utf8 :: "str option \<Rightarrow> str" where
  "encoding_or_utf8 encoding =
     (case encoding of
        None \<Rightarrow> lit ''utf-8''
      | Some e \<Rightarrow> if e = [] then lit ''utf-8'' else e)"

text \<open>
  \<^verbatim>\<open>
  def decodificar_texto(texto, encoding):
      if isinstance(texto, bytes):
          try:
              return texto.decode(encoding or 'utf-8')
          except UnicodeDecodeError:
              return texto.decode('latin-1', errors='ignore')
      return str(texto)
  \<close>
\<close>

definition decodificar_texto :: "runtime \<Rightarrow> texto \<Rightarrow> str option \<Rightarrow> excepcion + str" where
  "decodificar_texto rt texto encoding =
     (case texto of
        TBytes b \<Rightarrow>
          (case decode rt (encoding_or_utf8 encoding) b of
             Inr s \<Rightarrow> Inr s
           | Inl e \<Rightarrow>
               if e = UnicodeDecodeError then Inr (latin1_ignore b) else Inl e)
      | TStr s \<Rightarrow> Inr s
      | TNone \<Rightarrow> Inr (lit ''None''))"

text \<open>
  The value of a header as \<open>msg[name]\<close> and \<open>msg.get(name)\<close> return it: a
  \<open>str\<close>, or, for a header that holds raw non-ASCII bytes, an
  \<open>email.header.Header\<close> object, given here by its \<open>str()\<close>. A \<open>Header\<close>
  object is truthy, and it supports neither \<open>in\<close> nor iteration.
\<close>

datatype cabecera = Cadena str | Header str

definition cabecera_truthy :: "cabecera \<Rightarrow> bool" where
  "cabecera_truthy h = (case h of Cadena s \<Rightarrow> s \<noteq> [] | Header r \<Rightarrow> True)"

definition cabecera_str :: "cabecera \<Rightarrow> str" where
  "cabecera_str h = (case h of Cadena s \<Rightarrow> s | Header r \<Rightarrow> r)"

text \<open>
  An \<open>email.message.Message\<close> as the functions below read it. The library calls are
  taken as already computed: \<open>subject\<close> is \<open>msg["Subject"]\<close>, \<open>decoded\<close> is
  \<open>decode_header(msg["Subject"])\<close> (\<open>Inl\<close> when it raises), \<open>remite\<close> is the
  \<open>From\<close> header, \<open>raiz\<close> holds the message's own content type, decoded payload and
  charset, and \<open>msg.walk()\<close> yields \<open>raiz\<close> followed by \<open>descendientes\<close>.
\<close>

record parte =
  content_type :: str
  payload :: texto
  content_charset :: "str option"

record mensaje =
  subject :: "cabecera option"
  decoded :: "excepcion + (texto \<times> str option) list"
  remite :: "cabecera option"
  is_multipart :: bool
  raiz :: parte
  descendientes :: "parte list"

definition walk :: "mensaje \<Rightarrow> parte list" where
  "walk msg = raiz msg # descendientes msg"

text \<open>
  The \<open>try\<close> body of \<open>obtener_asunto_y_remitente\<close>: \<open>decode_header\<close>, the first
  pair of its list (\<open>IndexError\<close> on an empty list) and \<open>decodificar_texto\<close>. The
  handler replaces any exception by \<open>str(subject_raw)\<close>.
\<close>

definition asunto_decodificado :: "runtime \<Rightarrow> mensaje \<Rightarrow> excepcion + str" where
  "asunto_decodificado rt msg =
     (case decoded msg of
        Inl e \<Rightarrow> Inl e
      | Inr decoded_list \<Rightarrow>
          (case decoded_list of
             [] \<Rightarrow> Inl IndexError
           | (subject_str, encoding) # _ \<Rightarrow> decodificar_texto rt subject_str encoding))"

definition obtener_asunto_y_remitente :: "runtime \<Rightarrow> mensaje \<Rightarrow> str \<times> cabecera" where
  "obtener_asunto_y_remitente rt msg =
     (let subject_str =
        (case subject msg of
           None \<Rightarrow> lit ''(Sin Asunto)''
         | Some subject_raw \<Rightarrow>
             if \<not> cabecera_truthy subject_raw then lit ''(Sin Asunto)''
             else (case asunto_decodificado rt msg of
                     Inr s \<Rightarrow> s
                   | Inl e \<Rightarrow> cabecera_str subject_raw));
          sender = (case remite msg of None \<Rightarrow> Cadena (lit ''Desconocido'') | Some f \<Rightarrow> f)
      in (subject_str, sender))"

text \<open>
  \<open>obtener_cuerpo\<close>: the first \<open>text/plain\<close> part of a multipart message, or the
  message's own payload. Any exception leaves the placeholder and is logged; the
  second component is that log entry.
\<close>

fun primera_text_plain :: "parte list \<Rightarrow> parte option" where
  "primera_text_plain [] = None"
| "primera_text_plain (p # ps) =
     (if content_type p = lit ''text/plain'' then Some p else primera_text_plain ps)"

definition obtener_cuerpo :: "runtime \<Rightarrow> mensaje \<Rightarrow> str \<times> excepcion option" where
  "obtener_cuerpo rt msg =
     (let body = lit ''Sin contenido legible.'' in
      if is_multipart msg then
        (case primera_text_plain (walk msg) of
           None \<Rightarrow> (body, None)
         | Some part \<Rightarrow>
             (case decodificar_texto rt (payload part) (content_charset part) of
                Inr s \<Rightarrow> (s, None)
              | Inl e \<Rightarrow> (body, Some e)))
      else
        (case decodificar_texto rt (payload (raiz msg)) (content_charset (raiz msg)) of
           Inr s \<Rightarrow> (s, None)
         | Inl e \<Rightarrow> (body, Some e)))"

text \<open>
  \<open>s.split(sep)\<close> with a one-character separator: every occurrence splits, so
  two adjacent separators give an empty piece and the result is never empty.
\<close>

fun split_sep :: "nat \<Rightarrow> str \<Rightarrow> str list" where
  "split_sep c [] = [[]]"
| "split_sep c (x # xs) =
     (if x = c then [] # split_sep c xs
      else (case split_sep c xs of
              [] \<Rightarrow> [[x]]
            | p # ps \<Rightarrow> (x # p) # ps))"

text \<open>\<open>item.decode()\<close>: strict decoding with the codec named \<open>utf-8\<close>.\<close>

definition bytes_decode :: "runtime \<Rightarrow> bytes \<Rightarrow> excepcion + str" where
  "bytes_decode rt b = decode rt (lit ''utf-8'') b"

text \<open>A Python set of strings, kept in insertion order without repetition.\<close>

definition set_add :: "str \<Rightarrow> str list \<Rightarrow> str list" where
  "set_add x xs = (if x \<in> set xs then xs else xs @ [x])"

definition set_resta :: "str list \<Rightarrow> str list \<Rightarrow> str list" where
  "set_resta xs ys = filter (\<lambda>x. x \<notin> set ys) xs"

text \<open>
  The loop of \<open>obtener_lista_uids_con_mapa\<close> over the lines of the UIDL answer:
  \<^verbatim>\<open>
  for item in items:
      parts = item.decode().split(' ')
      if len(parts) >= 2:
          num = int(parts[0])
          uid = parts[1]
          uids.add(uid)
          uid_map[uid] = num
  \<close>
\<close>

fun lista_bucle ::
  "runtime \<Rightarrow> bytes list \<Rightarrow> str list \<times> (str \<rightharpoonup> int) \<Rightarrow> excepcion + (str list \<times> (str \<rightharpoonup> int))"
where
  "lista_bucle rt [] acc = Inr acc"
| "lista_bucle rt (item # items) acc =
     (case bytes_decode rt item of
        Inl e \<Rightarrow> Inl e
      | Inr line \<Rightarrow>
          (let parts = split_sep 32 line in
           if length parts \<ge> 2 then
             (case to_int rt (parts ! 0) of
                None \<Rightarrow> Inl ValueError
              | Some num \<Rightarrow>
                  lista_bucle rt items
                    (set_add (parts ! 1) (fst acc), (snd acc)(parts ! 1 \<mapsto> num)))
           else lista_bucle rt items acc))"

section \<open>Collaborators, shared state and outputs\<close>

text \<open>
  The f-strings of the source are kept symbolic: a constructor stands for the fixed
  template and carries the interpolated values.
\<close>

datatype prompt =
    PromptRedaccion "str option" "str option" str
  | PromptChat str
  | PromptResumen str str str

datatype texto_chat =
    TicketCreado
  | NoTicket
  | Redactando
  | EnviadoCopia str
  | SugerenciaTicket
  | ErrorSMTP
  | ConGusto str
  | NoHayCorreos
  | Enterado
  | Literal str
  | Alerta str str str

datatype destino = ChatConfigurado | Chat int

record correo =
  para :: "str option"
  asunto_re :: str
  cuerpo :: str

text \<open>
  The outcome of every external call of one poll cycle or one chat turn. A call that
  raises gives \<open>Some e\<close> (or \<open>Inl e\<close>). \<open>generate_content\<close> is
  \<open>model.generate_content(prompt)\<close> followed by \<open>response.text.strip()\<close>;
  \<open>smtp_send\<close> is the whole \<open>try\<close> body of \<open>enviar_correo_respuesta\<close>;
  \<open>pop_retr\<close> is \<open>pop_conn.retr\<close> followed by \<open>email.message_from_bytes\<close>.
\<close>

record entorno =
  pop_connect :: "excepcion option"
  pop_user :: "excepcion option"
  pop_pass :: "excepcion option"
  pop_uidl :: "excepcion + bytes list"
  pop_retr :: "int \<Rightarrow> excepcion + mensaje"
  pop_quit :: "excepcion option"
  generate_content :: "prompt \<Rightarrow> excepcion + str"
  smtp_send :: "correo \<Rightarrow> excepcion option"
  tg_reply_to :: "texto_chat \<Rightarrow> excepcion option"
  tg_send_message :: "destino \<Rightarrow> texto_chat \<Rightarrow> excepcion option"
  tg_send_chat_action :: "int \<Rightarrow> excepcion option"

datatype origen = Vertex | SMTP | Cuerpo | Vigilancia

text \<open>
  What the program does to the outside, in order: a chat reply, a pushed message, a
  typing indicator, an email handed to the SMTP server, an entry of \<open>logger.error\<close>.
  Only calls that returned are recorded. \<open>logger.info\<close> and \<open>time.sleep\<close> change
  nothing the model observes and are left out.
\<close>

datatype salida =
    Respuesta texto_chat
  | Mensaje destino texto_chat
  | Escribiendo int
  | Correo correo
  | LogError origen excepcion

record BotState =
  ultimo_remitente :: "str option"
  ultimo_asunto :: "str option"
  modo_respuesta :: bool
  modo_ticket :: bool

definition state_inicial :: BotState where
  "state_inicial =
     \<lparr>ultimo_remitente = None, ultimo_asunto = None, modo_respuesta = False, modo_ticket = False\<rparr>"

text \<open>
  A piece of the program run from a state: the exception it raised (if any), the state
  it left and what it put out. The state and the outputs survive a raise, as the
  mutations of the global \<open>state\<close> do. \<open>luego\<close> runs the second piece only when the
  first one returned.
\<close>

type_synonym efecto = "excepcion option \<times> BotState \<times> salida list"

definition luego :: "efecto \<Rightarrow> (BotState \<Rightarrow> efecto) \<Rightarrow> efecto" where
  "luego r f =
     (case r of
        (Some e, s, out) \<Rightarrow> (Some e, s, out)
      | (None, s, out) \<Rightarrow>
          (case f s of (x, s', out') \<Rightarrow> (x, s', out @ out')))"

definition reply_to :: "entorno \<Rightarrow> texto_chat \<Rightarrow> BotState \<Rightarrow> efecto" where
  "reply_to env t s =
     (case tg_reply_to env t of
        None \<Rightarrow> (None, s, [Respuesta t])
      | Some e \<Rightarrow> (Some e, s, []))"

definition send_message :: "entorno \<Rightarrow> destino \<Rightarrow> texto_chat \<Rightarrow> BotState \<Rightarrow> efecto" where
  "send_message env d t s =
     (case tg_send_message env d t of
        None \<Rightarrow> (None, s, [Mensaje d t])
      | Some e \<Rightarrow> (Some e, s, []))"

definition send_chat_action :: "entorno \<Rightarrow> int \<Rightarrow> BotState \<Rightarrow> efecto" where
  "send_chat_action env c s =
     (case tg_send_chat_action env c of
        None \<Rightarrow> (None, s, [Escribiendo c])
      | Some e \<Rightarrow> (Some e, s, []))"

section \<open>Language model and outbound mail\<close>

text \<open>The string returned by \<open>preguntar_a_gemini\<close> when the model call raises.\<close>

definition ia_no_disponible :: str where
  "ia_no_disponible =
     [0x26A0, 0xFE0F] @ lit '' Error: La IA no est'' @ [0xE1]
       @ lit '' disponible en este momento.''"

definition preguntar_a_gemini :: "entorno \<Rightarrow> prompt \<Rightarrow> str \<times> salida list" where
  "preguntar_a_gemini env p =
     (case generate_content env p of
        Inr t \<Rightarrow> (t, [])
      | Inl e \<Rightarrow> (ia_no_disponible, [LogError Vertex e]))"

text \<open>\<open>f"{x}"\<close> of an optional string: \<open>None\<close> prints as \<open>None\<close>.\<close>

definition fmt :: "str option \<Rightarrow> str" where
  "fmt x = (case x of None \<Rightarrow> lit ''None'' | Some s \<Rightarrow> s)"

definition enviar_correo_respuesta ::
  "entorno \<Rightarrow> str option \<Rightarrow> str option \<Rightarrow> str \<Rightarrow> bool \<times> salida list"
where
  "enviar_correo_respuesta env destinatario asunto cuerpo_ia =
     (let msg = \<lparr>para = destinatario, asunto_re = lit ''Re: '' @ fmt asunto, cuerpo = cuerpo_ia\<rparr> in
      case smtp_send env msg of
        None \<Rightarrow> (True, [Correo msg])
      | Some e \<Rightarrow> (False, [LogError SMTP e]))"

section \<open>The chat controller\<close>

text \<open>\<open>k in s\<close> on strings, and \<open>any(k in s for k in ks)\<close>.\<close>

fun es_prefijo :: "str \<Rightarrow> str \<Rightarrow> bool" where
  "es_prefijo [] ys = True"
| "es_prefijo (x # xs) [] = False"
| "es_prefijo (x # xs) (y # ys) = (x = y \<and> es_prefijo xs ys)"

fun contiene :: "str \<Rightarrow> str \<Rightarrow> bool" where
  "contiene k [] = (k = [])"
| "contiene k (y # ys) = (es_prefijo k (y # ys) \<or> contiene k ys)"

fun alguna :: "str list \<Rightarrow> str \<Rightarrow> bool" where
  "alguna [] s = False"
| "alguna (k # ks) s = (contiene k s \<or> alguna ks s)"

definition si :: str where
  "si = [0x73, 0xED]"

definition afirmativas_ticket :: "str list" where
  "afirmativas_ticket =
     [lit ''si'', si, lit ''claro'', lit ''por favor'', lit ''hazlo'', lit ''simon'']"

definition afirmativas_respuesta :: "str list" where
  "afirmativas_respuesta =
     [lit ''si'', si, lit ''claro'', lit ''responder'', lit ''ok'', lit ''simon'']"

definition negativas :: "str list" where
  "negativas = [lit ''no'', lit ''nel'', lit ''nop'', lit ''luego'', lit ''gracias'']"

definition keywords_soporte :: "str list" where
  "keywords_soporte = [lit ''ticket'', lit ''incidencia'', lit ''soporte'', lit ''falla'']"

text \<open>
  The chat message handed to \<open>responder_chat\<close>: \<open>message.text\<close> and
  \<open>message.chat.id\<close>. The handler is registered for text messages, so the text is
  a string.
\<close>

record message =
  msg_text :: str
  chat_id :: int

text \<open>\<open>if state.ultimo_remitente:\<close> holds for a non-empty string only.\<close>

definition truthy :: "str option \<Rightarrow> bool" where
  "truthy x = (case x of None \<Rightarrow> False | Some s \<Rightarrow> s \<noteq> [])"

text \<open>The three branches of \<open>responder_chat\<close>, in the order of the source.\<close>

definition turno_ticket :: "entorno \<Rightarrow> message \<Rightarrow> str \<Rightarrow> BotState \<Rightarrow> efecto" where
  "turno_ticket env m usuario_input s =
     luego
       (if alguna afirmativas_ticket usuario_input then
          luego (send_chat_action env (chat_id m) s) (reply_to env TicketCreado)
        else reply_to env NoTicket s)
       (\<lambda>s. (None, s\<lparr>modo_ticket := False\<rparr>, []))"

definition turno_respuesta :: "runtime \<Rightarrow> entorno \<Rightarrow> message \<Rightarrow> BotState \<Rightarrow> efecto" where
  "turno_respuesta rt env m s =
     luego (send_message env (Chat (chat_id m)) Redactando s) (\<lambda>s.
       (let pr = PromptRedaccion (ultimo_remitente s) (ultimo_asunto s) (msg_text m);
            gem = preguntar_a_gemini env pr;
            cuerpo_final = fst gem;
            env_res = enviar_correo_respuesta env (ultimo_remitente s) (ultimo_asunto s) cuerpo_final;
            exito = fst env_res
        in luego (None, s, snd gem @ snd env_res) (\<lambda>s.
           luego
             (if exito then
                luego (reply_to env (EnviadoCopia cuerpo_final) s) (\<lambda>s.
                  if alguna keywords_soporte (lower rt cuerpo_final) then
                    luego (send_message env (Chat (chat_id m)) SugerenciaTicket s)
                      (\<lambda>s. (None, s\<lparr>modo_ticket := True\<rparr>, []))
                  else (None, s, []))
              else reply_to env ErrorSMTP s)
             (\<lambda>s. (None, s\<lparr>modo_respuesta := False\<rparr>, [])))))"

definition turno_general :: "entorno \<Rightarrow> message \<Rightarrow> str \<Rightarrow> BotState \<Rightarrow> efecto" where
  "turno_general env m usuario_input s =
     (if alguna afirmativas_respuesta usuario_input then
        (if truthy (ultimo_remitente s) then
           luego (None, s\<lparr>modo_respuesta := True\<rparr>, [])
             (reply_to env (ConGusto (fmt (ultimo_remitente s))))
         else reply_to env NoHayCorreos s)
      else if alguna negativas usuario_input then reply_to env Enterado s
      else
        (let gem = preguntar_a_gemini env (PromptChat (msg_text m)) in
         luego (None, s, snd gem) (reply_to env (Literal (fst gem)))))"

definition responder_chat :: "runtime \<Rightarrow> entorno \<Rightarrow> message \<Rightarrow> BotState \<Rightarrow> efecto" where
  "responder_chat rt env m s =
     (let usuario_input = lower rt (msg_text m) in
      if modo_ticket s then turno_ticket env m usuario_input s
      else if modo_respuesta s then turno_respuesta rt env m s
      else turno_general env m usuario_input s)"

text \<open>
  The mode of the specification, read off the two flags in the order in which
  \<open>responder_chat\<close> tests them.
\<close>

datatype mode = Idle | AwaitingReplyDraft | AwaitingTicketConfirmation

definition mode_of :: "BotState \<Rightarrow> mode" where
  "mode_of s =
     (if modo_ticket s then AwaitingTicketConfirmation
      else if modo_respuesta s then AwaitingReplyDraft
      else Idle)"

text \<open>No transport call of the turn raises.\<close>

definition transporte_ok :: "entorno \<Rightarrow> bool" where
  "transporte_ok env =
     ((\<forall>t. tg_reply_to env t = None) \<and> (\<forall>d t. tg_send_message env d t = None)
      \<and> (\<forall>c. tg_send_chat_action env c = None))"

section \<open>The mailbox watcher\<close>

text \<open>
  \<open>remitente.split("<")[1].replace(">", "")\<close> when the sender contains \<open><\<close>; the
  split then has at least two pieces.
\<close>

definition email_limpio :: "str \<Rightarrow> str" where
  "email_limpio remitente =
     (if 60 \<in> set remitente then filter (\<lambda>c. c \<noteq> 62) (split_sep 60 remitente ! 1)
      else remitente)"

definition obtener_lista_uids_con_mapa ::
  "runtime \<Rightarrow> entorno \<Rightarrow> excepcion + (str list \<times> (str \<rightharpoonup> int))"
where
  "obtener_lista_uids_con_mapa rt env =
     (case pop_uidl env of
        Inl e \<Rightarrow> Inl e
      | Inr items \<Rightarrow> lista_bucle rt items ([], Map.empty))"

text \<open>
  The body of \<open>for uid in nuevos\<close> for one identifier. \<open>if msg_num:\<close> skips an
  identifier without a number and the number 0. The test \<open>"<" in remitente\<close>
  raises \<open>TypeError\<close> when the sender is a \<open>Header\<close> object; the subject and the
  body have been read by then, the shared state has not been touched.
\<close>

definition procesar_uid ::
  "runtime \<Rightarrow> entorno \<Rightarrow> (str \<rightharpoonup> int) \<Rightarrow> str \<Rightarrow> BotState \<Rightarrow> efecto"
where
  "procesar_uid rt env uid_map uid s =
     (case uid_map uid of
        None \<Rightarrow> (None, s, [])
      | Some msg_num \<Rightarrow>
          if msg_num = 0 then (None, s, [])
          else
            (case pop_retr env msg_num of
               Inl e \<Rightarrow> (Some e, s, [])
             | Inr msg \<Rightarrow>
                 (let asunto = fst (obtener_asunto_y_remitente rt msg);
                      cuerpo_mensaje = obtener_cuerpo rt msg;
                      log_cuerpo = (case snd cuerpo_mensaje of
                                      None \<Rightarrow> []
                                    | Some e \<Rightarrow> [LogError Cuerpo e])
                  in case snd (obtener_asunto_y_remitente rt msg) of
                       Header r \<Rightarrow> (Some TypeError, s, log_cuerpo)
                     | Cadena remitente \<Rightarrow>
                         (let s1 = s\<lparr>ultimo_remitente := Some (email_limpio remitente),
                                      ultimo_asunto := Some asunto\<rparr>;
                              gem = preguntar_a_gemini env
                                      (PromptResumen remitente asunto
                                         (take 1500 (fst cuerpo_mensaje)))
                          in luego (None, s1, log_cuerpo @ snd gem)
                               (send_message env ChatConfigurado
                                  (Alerta remitente asunto (fst gem)))))))"

fun procesar_nuevos ::
  "runtime \<Rightarrow> entorno \<Rightarrow> (str \<rightharpoonup> int) \<Rightarrow> str list \<Rightarrow> BotState \<Rightarrow> efecto"
where
  "procesar_nuevos rt env uid_map [] s = (None, s, [])"
| "procesar_nuevos rt env uid_map (uid # uids) s =
     luego (procesar_uid rt env uid_map uid s) (procesar_nuevos rt env uid_map uids)"

text \<open>The local variables of \<open>ciclo_correos\<close> that live across iterations.\<close>

record vigia =
  uids_conocidos :: "str list"
  primera_vuelta :: bool

definition vigia_inicial :: vigia where
  "vigia_inicial = \<lparr>uids_conocidos = [], primera_vuelta = True\<rparr>"

text \<open>Connection, authentication and listing: the first four calls of the \<open>try\<close>.\<close>

definition abrir_y_listar :: "runtime \<Rightarrow> entorno \<Rightarrow> excepcion + (str list \<times> (str \<rightharpoonup> int))" where
  "abrir_y_listar rt env =
     (case pop_connect env of
        Some e \<Rightarrow> Inl e
      | None \<Rightarrow>
          (case pop_user env of
             Some e \<Rightarrow> Inl e
           | None \<Rightarrow>
               (case pop_pass env of
                  Some e \<Rightarrow> Inl e
                | None \<Rightarrow> obtener_lista_uids_con_mapa rt env)))"

text \<open>\<open>pop_conn.quit()\<close>, the last call of the \<open>try\<close>; its exception is logged too.\<close>

definition cerrar :: "entorno \<Rightarrow> vigia \<times> BotState \<times> salida list \<Rightarrow> vigia \<times> BotState \<times> salida list" where
  "cerrar env r =
     (case pop_quit env of
        None \<Rightarrow> r
      | Some e \<Rightarrow> (fst r, fst (snd r), snd (snd r) @ [LogError Vigilancia e]))"

text \<open>
  One iteration of the \<open>while True\<close> of \<open>ciclo_correos\<close>, up to the \<open>time.sleep\<close>:
  the \<open>try\<close> block and its \<open>except Exception\<close>, which logs and goes on.
\<close>

definition ciclo :: "runtime \<Rightarrow> entorno \<Rightarrow> vigia \<Rightarrow> BotState \<Rightarrow> vigia \<times> BotState \<times> salida list" where
  "ciclo rt env v s =
     (case abrir_y_listar rt env of
        Inl e \<Rightarrow> (v, s, [LogError Vigilancia e])
      | Inr lista \<Rightarrow>
          (let uids_actuales = fst lista; uid_map = snd lista in
           if primera_vuelta v then
             cerrar env (v\<lparr>uids_conocidos := uids_actuales, primera_vuelta := False\<rparr>, s, [])
           else
             (let nuevos = set_resta uids_actuales (uids_conocidos v) in
              if nuevos \<noteq> [] then
                (case procesar_nuevos rt env uid_map (orden rt nuevos) s of
                   (Some e, s', out) \<Rightarrow> (v, s', out @ [LogError Vigilancia e])
                 | (None, s', out) \<Rightarrow>
                     cerrar env (v\<lparr>uids_conocidos := uids_actuales\<rparr>, s', out))
              else cerrar env (v, s, []))))"

text \<open>
  \<open>ciclo_correos\<close> run for as many iterations as there are environments, one per
  iteration, from given locals; the source starts it from \<open>vigia_inicial\<close>.
\<close>

fun ciclo_correos ::
  "runtime \<Rightarrow> entorno list \<Rightarrow> vigia \<Rightarrow> BotState \<Rightarrow> vigia \<times> BotState \<times> salida list"
where
  "ciclo_correos rt [] v s = (v, s, [])"
| "ciclo_correos rt (env # envs) v s =
     (case ciclo rt env v s of
        (v1, s1, out1) \<Rightarrow>
          (case ciclo_correos rt envs v1 s1 of
             (v2, s2, out2) \<Rightarrow> (v2, s2, out1 @ out2)))"

section \<open>Start of the process\<close>







section \<open>Notions used in the statements\<close>


text \<open>
  The alert that \<open>procesar_uid\<close> pushes for a message with the given sender,
  subject and body.
\<close>

definition alerta_de :: "entorno \<Rightarrow> str \<Rightarrow> str \<Rightarrow> str \<Rightarrow> texto_chat" where
  "alerta_de env remitente asunto cuerpo_mensaje =
     Alerta remitente asunto
       (fst (preguntar_a_gemini env
               (PromptResumen remitente asunto (take 1500 cuerpo_mensaje))))"



text \<open>
  The body drafted in a reply turn (\<open>cuerpo_final\<close>) and whether its email was sent
  (\<open>exito\<close>).
\<close>

definition borrador :: "entorno \<Rightarrow> message \<Rightarrow> BotState \<Rightarrow> str" where
  "borrador env m s =
     fst (preguntar_a_gemini env
            (PromptRedaccion (ultimo_remitente s) (ultimo_asunto s) (msg_text m)))"

definition enviado :: "entorno \<Rightarrow> message \<Rightarrow> BotState \<Rightarrow> bool" where
  "enviado env m s =
     fst (enviar_correo_respuesta env (ultimo_remitente s) (ultimo_asunto s) (borrador env m s))"

text \<open>The email of a reply turn whose body is the placeholder of a failed model call.\<close>

definition correo_no_disponible :: "BotState \<Rightarrow> correo" where
  "correo_no_disponible s =
     \<lparr>para = ultimo_remitente s, asunto_re = lit ''Re: '' @ fmt (ultimo_asunto s),
      cuerpo = ia_no_disponible\<rparr>"

text \<open>At most one of the two awaiting flags is set.\<close>

definition a_lo_sumo_uno :: "BotState \<Rightarrow> bool" where
  "a_lo_sumo_uno s = (\<not> (modo_respuesta s \<and> modo_ticket s))"

text \<open>
  The process as a sequence of events: chat turns, each run to its end, and poll
  cycles, each with the environment it meets. \<open>estado rt evs\<close> is the shared state
  after the events \<open>evs\<close>, from the start of the process.
\<close>

datatype evento = Turno entorno message | Sondeo entorno

fun paso :: "runtime \<Rightarrow> vigia \<times> BotState \<Rightarrow> evento \<Rightarrow> vigia \<times> BotState" where
  "paso rt (v, s) (Turno env m) = (v, fst (snd (responder_chat rt env m s)))"
| "paso rt (v, s) (Sondeo env) = (fst (ciclo rt env v s), fst (snd (ciclo rt env v s)))"

definition estado :: "runtime \<Rightarrow> evento list \<Rightarrow> BotState" where
  "estado rt evs = snd (foldl (paso rt) (vigia_inicial, state_inicial) evs)"

text \<open>The state after a sequence of chat turns from a given state.\<close>

fun turnos :: "runtime \<Rightarrow> (entorno \<times> message) list \<Rightarrow> BotState \<Rightarrow> BotState" where
  "turnos rt [] s = s"
| "turnos rt ((env, m) # ts) s = turnos rt ts (fst (snd (responder_chat rt env m s)))"


section \<open>An interpreter for the examples\<close>

text \<open>
  A concrete \<open>runtime\<close> on which the examples below are evaluated. It follows CPython
  on what the examples use: the codecs \<open>utf-8\<close>, \<open>latin-1\<close> and \<open>ascii\<close> under
  their usual lower-case names, \<open>int\<close> on ASCII text, \<open>str.lower\<close> on ASCII and
  Latin-1 letters (other code points are left as they are). The enumeration of a set,
  which CPython leaves to the hashes of the process, is taken in insertion order. The
  general theorems do not depend on it.
\<close>

definition cont :: "nat \<Rightarrow> bool" where
  "cont b = (128 \<le> b \<and> b \<le> 191)"

definition seg2 :: "nat \<Rightarrow> nat \<Rightarrow> bool" where
  "seg2 a b =
     (if a = 224 then 160 \<le> b \<and> b \<le> 191
      else if a = 237 then 128 \<le> b \<and> b \<le> 159
      else cont b)"

definition seg3 :: "nat \<Rightarrow> nat \<Rightarrow> bool" where
  "seg3 a b =
     (if a = 240 then 144 \<le> b \<and> b \<le> 191
      else if a = 244 then 128 \<le> b \<and> b \<le> 143
      else cont b)"

fun utf8 :: "nat list \<Rightarrow> str option" where
  "utf8 [] = Some []"
| "utf8 (a # bs) =
     (if a < 128 then map_option ((#) a) (utf8 bs)
      else if 194 \<le> a \<and> a \<le> 223 then
        (case bs of
           b # r \<Rightarrow>
             if cont b then map_option ((#) ((a - 192) * 64 + (b - 128))) (utf8 r) else None
         | _ \<Rightarrow> None)
      else if 224 \<le> a \<and> a \<le> 239 then
        (case bs of
           b # c # r \<Rightarrow>
             if seg2 a b \<and> cont c
             then map_option ((#) ((a - 224) * 4096 + (b - 128) * 64 + (c - 128))) (utf8 r)
             else None
         | _ \<Rightarrow> None)
      else if 240 \<le> a \<and> a \<le> 244 then
        (case bs of
           b # c # d # r \<Rightarrow>
             if seg3 a b \<and> cont c \<and> cont d
             then map_option
                    ((#) ((a - 240) * 262144 + (b - 128) * 4096 + (c - 128) * 64 + (d - 128)))
                    (utf8 r)
             else None
         | _ \<Rightarrow> None)
      else None)"

definition codecs :: "str \<Rightarrow> (bytes \<Rightarrow> str option) option" where
  "codecs name =
     (if name = lit ''utf-8'' \<or> name = lit ''utf8'' then Some (\<lambda>b. utf8 (map unat b))
      else if name = lit ''latin-1'' \<or> name = lit ''latin1'' \<or> name = lit ''iso-8859-1''
        then Some (\<lambda>b. Some (map unat b))
      else if name = lit ''ascii'' \<or> name = lit ''us-ascii''
        then Some (\<lambda>b. if list_all (\<lambda>x. unat x < 128) b then Some (map unat b) else None)
      else None)"

definition es_espacio :: "nat \<Rightarrow> bool" where
  "es_espacio c = ((9 \<le> c \<and> c \<le> 13) \<or> (28 \<le> c \<and> c \<le> 32))"

definition es_digito :: "nat \<Rightarrow> bool" where
  "es_digito c = (48 \<le> c \<and> c \<le> 57)"

fun digitos :: "str \<Rightarrow> int \<Rightarrow> int option" where
  "digitos [] acc = Some acc"
| "digitos (c # cs) acc =
     (if es_digito c then digitos cs (acc * 10 + int (c - 48))
      else if c = 95 then
        (case cs of
           [] \<Rightarrow> None
         | d # _ \<Rightarrow> if es_digito d then digitos cs acc else None)
      else None)"

definition natural :: "str \<Rightarrow> int option" where
  "natural s =
     (case s of
        [] \<Rightarrow> None
      | c # _ \<Rightarrow> if es_digito c then digitos s 0 else None)"

definition int_ascii :: "str \<Rightarrow> int option" where
  "int_ascii s =
     (let t = rev (dropWhile es_espacio (rev (dropWhile es_espacio s))) in
      case t of
        [] \<Rightarrow> None
      | c # cs \<Rightarrow>
          if c = 45 then map_option uminus (natural cs)
          else if c = 43 then natural cs
          else natural t)"

definition lower_latin1 :: "str \<Rightarrow> str" where
  "lower_latin1 s =
     map (\<lambda>c. if (65 \<le> c \<and> c \<le> 90) \<or> (192 \<le> c \<and> c \<le> 222 \<and> c \<noteq> 215) then c + 32 else c) s"

text \<open>
  \<open>b.decode(name)\<close>: a name with a NUL character is refused with \<open>ValueError\<close>, a
  name without a codec with \<open>LookupError\<close>, bytes that the codec rejects with
  \<open>UnicodeDecodeError\<close>.
\<close>

definition decode_codecs :: "str \<Rightarrow> bytes \<Rightarrow> excepcion + str" where
  "decode_codecs name b =
     (if 0 \<in> set name then Inl ValueError
      else (case codecs name of
              None \<Rightarrow> Inl (LookupError name)
            | Some dec \<Rightarrow>
                (case dec b of None \<Rightarrow> Inl UnicodeDecodeError | Some s \<Rightarrow> Inr s)))"

definition cpython :: runtime where
  "cpython =
     \<lparr>decode = decode_codecs, to_int = int_ascii, lower = lower_latin1, orden = (\<lambda>xs. xs)\<rparr>"

section \<open>Example inputs\<close>

text \<open>An ASCII \<open>bytes\<close> literal.\<close>

definition blit :: "string \<Rightarrow> bytes" where
  "blit s = map of_char s"

definition uidA :: str where "uidA = lit ''uidA''"
definition uidB :: str where "uidB = lit ''uidB''"
definition uidC :: str where "uidC = lit ''uidC''"

text \<open>A plain-text message from \<open>Jane Doe <jane@x.com>\<close> with subject \<open>Hola\<close>.\<close>

definition msg_C :: mensaje where
  "msg_C =
     \<lparr>subject = Some (Cadena (lit ''Hola'')),
      decoded = Inr [(TStr (lit ''Hola''), None)],
      remite = Some (Cadena (lit ''Jane Doe <jane@x.com>'')),
      is_multipart = False,
      raiz = \<lparr>content_type = lit ''text/plain'', payload = TBytes (blit ''La impresora no enciende''),
              content_charset = Some (lit ''utf-8'')\<rparr>,
      descendientes = []\<rparr>"

text \<open>
  An environment in which every collaborator answers: an empty mailbox, a model that
  returns a fixed text, a mail server and a chat transport that accept everything.
\<close>

definition env_ok :: entorno where
  "env_ok =
     \<lparr>pop_connect = None, pop_user = None, pop_pass = None,
      pop_uidl = Inr [],
      pop_retr = (\<lambda>n. Inl (Externa (lit ''-ERR no such message''))),
      pop_quit = None,
      generate_content = (\<lambda>p. Inr (lit ''Jane informa de una impresora averiada.'')),
      smtp_send = (\<lambda>c. None),
      tg_reply_to = (\<lambda>t. None),
      tg_send_message = (\<lambda>d t. None),
      tg_send_chat_action = (\<lambda>c. None)\<rparr>"

definition env_caido :: entorno where
  "env_caido = env_ok\<lparr>pop_connect := Some (Externa (lit ''timed out''))\<rparr>"

text \<open>The server lists A, B and C, and C's message can be fetched.\<close>

definition env_ABC :: entorno where
  "env_ABC =
     env_ok\<lparr>pop_uidl := Inr [blit ''1 uidA'', blit ''2 uidB'', blit ''3 uidC''],
            pop_retr := (\<lambda>n. if n = 3 then Inr msg_C
                              else Inl (Externa (lit ''-ERR no such message'')))\<rparr>"

text \<open>B has been deleted from the server: only A is listed.\<close>

definition env_solo_A :: entorno where
  "env_solo_A = env_ok\<lparr>pop_uidl := Inr [blit ''1 uidA'']\<rparr>"

definition v_A :: vigia where
  "v_A = \<lparr>uids_conocidos = [uidA], primera_vuelta = False\<rparr>"

definition v_AB :: vigia where
  "v_AB = \<lparr>uids_conocidos = [uidA, uidB], primera_vuelta = False\<rparr>"

text \<open>The same listing, but fetching B's message fails.\<close>

definition env_B_falla :: entorno where
  "env_B_falla =
     env_ok\<lparr>pop_uidl := Inr [blit ''1 uidA'', blit ''2 uidB'', blit ''3 uidC''],
            pop_retr := (\<lambda>n. if n = 2 then Inl (Externa (lit ''connection reset''))
                              else if n = 3 then Inr msg_C
                              else Inl (Externa (lit ''-ERR no such message'')))\<rparr>"

text \<open>The mailbox at the first poll: A and B.\<close>

definition env_AB :: entorno where
  "env_AB = env_ok\<lparr>pop_uidl := Inr [blit ''1 uidA'', blit ''2 uidB'']\<rparr>"

text \<open>A model whose draft offers support, and a model that is down.\<close>

definition env_soporte :: entorno where
  "env_soporte =
     env_ok\<lparr>generate_content :=
              (\<lambda>p. Inr (lit ''Jared comenta que puede abrir un ticket de soporte.''))\<rparr>"

definition env_sin_ia :: entorno where
  "env_sin_ia = env_ok\<lparr>generate_content := (\<lambda>p. Inl (Externa (lit ''503 unavailable'')))\<rparr>"

text \<open>Chat lines of the operator: \<open>S\<close> followed by i acute, a dictation, a refusal.\<close>

definition msg_si :: message where
  "msg_si = \<lparr>msg_text = [0x53, 0xED], chat_id = 7\<rparr>"

definition msg_dictado :: message where
  "msg_dictado = \<lparr>msg_text = lit ''the printer is fixed'', chat_id = 7\<rparr>"

definition msg_no :: message where
  "msg_no = \<lparr>msg_text = lit ''No, gracias'', chat_id = 7\<rparr>"

text \<open>
  The shared state once Jane's message has been announced, then after the operator
  agreed to answer, and with a ticket offer pending.
\<close>

definition s_pendiente :: BotState where
  "s_pendiente =
     \<lparr>ultimo_remitente = Some (lit ''jane@x.com''), ultimo_asunto = Some (lit ''Hola''),
      modo_respuesta = False, modo_ticket = False\<rparr>"

definition s_redaccion :: BotState where
  "s_redaccion = s_pendiente\<lparr>modo_respuesta := True\<rparr>"

definition s_ticket :: BotState where
  "s_ticket = s_pendiente\<lparr>modo_ticket := True\<rparr>"

text \<open>
  A run of the process: the initial sync, the poll that finds C, and the operator's
  agreement to answer.
\<close>

definition eventos_redaccion :: "evento list" where
  "eventos_redaccion = [Sondeo env_AB, Sondeo env_ABC, Turno env_ok msg_si]"

definition turnos_redaccion :: "(entorno \<times> message) list" where
  "turnos_redaccion = [(env_ok, msg_dictado)]"








text \<open>A chat transport whose replies fail.\<close>

definition env_reply_falla :: entorno where
  "env_reply_falla =
     env_ok\<lparr>tg_reply_to := (\<lambda>t. Some (Externa (lit ''telegram: connection error'')))\<rparr>"

text \<open>The run that goes on with a dictation whose draft offers a ticket.\<close>

definition eventos_ticket :: "evento list" where
  "eventos_ticket = eventos_redaccion @ [Turno env_soporte msg_dictado]"


section \<open>Properties of the decoder\<close>

text \<open>
  The decoder raises exactly the exceptions of \<open>bytes.decode\<close> that are not a
  \<open>UnicodeDecodeError\<close>, and only on \<open>bytes\<close>.
\<close>

lemma decodificar_texto_raises_iff:
  "decodificar_texto rt t enc = Inl e \<longleftrightarrow>
   (\<exists>b. t = TBytes b \<and> decode rt (encoding_or_utf8 enc) b = Inl e) \<and> e \<noteq> UnicodeDecodeError"
  by (auto simp: decodificar_texto_def split: texto.splits sum.splits)

lemma decodificar_texto_declared:
  "decode rt (encoding_or_utf8 enc) b = Inr t \<Longrightarrow>
   decodificar_texto rt (TBytes b) enc = Inr t"
  by (simp add: decodificar_texto_def)

lemma decodificar_texto_fallback:
  "decode rt (encoding_or_utf8 enc) b = Inl UnicodeDecodeError \<Longrightarrow>
   decodificar_texto rt (TBytes b) enc = Inr (latin1_ignore b)"
  by (simp add: decodificar_texto_def)

lemma decodificar_texto_fallback_example:
  "decodificar_texto cpython (TBytes [0x68, 0xE9]) (Some (lit ''utf-8'')) = Inr [104, 233]"
  by (simp add: decodificar_texto_def cpython_def decode_codecs_def codecs_def encoding_or_utf8_def lit_def
      latin1_ignore_def)

text \<open>
  C5. The claim is that the decoder returns a string for every byte string and every
  declared charset, unknown names included. On the bytes of \<open>hola\<close> declared with the
  charset \<open>x-unknown\<close>, which no codec carries, \<open>decodificar_texto\<close> raises
  \<open>LookupError\<close>: its handler catches \<open>UnicodeDecodeError\<close> only, so the Latin-1
  fallback is never reached.
\<close>

theorem decodificar_texto_unknown_charset:
  "decodificar_texto cpython (TBytes [0x68, 0x6F, 0x6C, 0x61]) (Some (lit ''x-unknown''))
     = Inl (LookupError (lit ''x-unknown''))"
  by (simp add: decodificar_texto_def cpython_def decode_codecs_def codecs_def encoding_or_utf8_def lit_def)

section \<open>Properties of the watcher\<close>

text \<open>
  C4. If the connection, the authentication or the listing of a poll cycle raises, the
  cycle leaves the known identifiers (and the rest of the watcher's and the
  controller's state) exactly as they were, and its only output is the log entry
  of the exception: no notification is pushed.
\<close>

theorem ciclo_fallo_conexion:
  assumes "abrir_y_listar rt env = Inl e"
  shows "ciclo rt env v s = (v, s, [LogError Vigilancia e])"
  using assms by (simp add: ciclo_def)

theorem ciclo_fallo_conexion_witness:
  "abrir_y_listar cpython env_caido = Inl (Externa (lit ''timed out''))
   \<and> ciclo cpython env_caido v_AB state_inicial
       = (v_AB, state_inicial, [LogError Vigilancia (Externa (lit ''timed out''))])"
proof -
  have h: "abrir_y_listar cpython env_caido = Inl (Externa (lit ''timed out''))"
    by (simp add: abrir_y_listar_def env_caido_def env_ok_def)
  show ?thesis
    using h ciclo_fallo_conexion [OF h, of v_AB state_inicial] by simp
qed

subsection \<open>Sequencing, listing and the loop over new identifiers\<close>

lemma luego_None [simp]: "luego (None, s, out) f = (case f s of (x, s', out') \<Rightarrow> (x, s', out @ out'))"
  by (simp add: luego_def)

lemma luego_Some [simp]: "luego (Some e, s, out) f = (Some e, s, out)"
  by (simp add: luego_def)





lemma procesar_nuevos_append:
  "procesar_nuevos rt env m (xs @ ys) s =
     luego (procesar_nuevos rt env m xs s) (procesar_nuevos rt env m ys)"
proof (induction xs arbitrary: s)
  case Nil
  then show ?case by (simp split: prod.splits)
next
  case (Cons x xs)
  show ?case
    by (cases "procesar_uid rt env m x s" rule: prod_cases3)
       (auto simp: Cons.IH luego_def split: option.splits prod.splits)
qed

lemma procesar_nuevos_aborta:
  assumes "procesar_nuevos rt env m pre s = (None, s1, out1)"
      and "procesar_uid rt env m uid s1 = (Some e, s2, out2)"
  shows "procesar_nuevos rt env m (pre @ uid # post) s = (Some e, s2, out1 @ out2)"
  using assms by (simp add: procesar_nuevos_append)

text \<open>
  The step for one identifier raises exactly when the fetch raises, when the sender
  is a \<open>Header\<close> object, or when the push of the alert raises; decoding and
  summarising are absorbed inside it.
\<close>

lemma procesar_uid_raises_iff:
  "(\<exists>e. fst (procesar_uid rt env m uid s) = Some e) \<longleftrightarrow>
   (\<exists>n. m uid = Some n \<and> n \<noteq> 0 \<and>
     (case pop_retr env n of
        Inl e \<Rightarrow> True
      | Inr msg \<Rightarrow>
          (case snd (obtener_asunto_y_remitente rt msg) of
             Header r \<Rightarrow> True
           | Cadena remitente \<Rightarrow>
               tg_send_message env ChatConfigurado
                 (alerta_de env remitente (fst (obtener_asunto_y_remitente rt msg))
                    (fst (obtener_cuerpo rt msg))) \<noteq> None)))"
  by (auto simp: procesar_uid_def Let_def send_message_def alerta_de_def
      split: option.splits sum.splits cabecera.splits)

lemma ciclo_sin_nuevos:
  assumes "abrir_y_listar rt env = Inr lista" "\<not> primera_vuelta v"
      and "set_resta (fst lista) (uids_conocidos v) = []"
  shows "ciclo rt env v s = cerrar env (v, s, [])"
  using assms by (simp add: ciclo_def Let_def)

lemma ciclo_con_nuevos:
  assumes "abrir_y_listar rt env = Inr lista" "\<not> primera_vuelta v"
      and "set_resta (fst lista) (uids_conocidos v) = nuevos" "nuevos \<noteq> []"
      and "procesar_nuevos rt env (snd lista) (orden rt nuevos) s = (x, s', out)"
  shows "ciclo rt env v s =
           (case x of
              Some e \<Rightarrow> (v, s', out @ [LogError Vigilancia e])
            | None \<Rightarrow> cerrar env (v\<lparr>uids_conocidos := fst lista\<rparr>, s', out))"
  using assms by (simp add: ciclo_def Let_def split: option.splits)

subsection \<open>The examples, evaluated\<close>

lemma uids_distintos: "uidA \<noteq> uidB" "uidA \<noteq> uidC" "uidB \<noteq> uidC" "uidB \<noteq> uidA" "uidC \<noteq> uidA" "uidC \<noteq> uidB"
  by (simp_all add: uidA_def uidB_def uidC_def lit_def)

lemma lista_AB:
  "abrir_y_listar cpython env_AB = Inr ([uidA, uidB], [uidA \<mapsto> 1, uidB \<mapsto> 2])"
  by (simp add: abrir_y_listar_def obtener_lista_uids_con_mapa_def env_AB_def env_ok_def
      bytes_decode_def cpython_def decode_codecs_def codecs_def lit_def blit_def Let_def set_add_def
      int_ascii_def natural_def es_espacio_def es_digito_def uidA_def uidB_def)

lemma lista_ABC:
  "abrir_y_listar cpython env_ABC = Inr ([uidA, uidB, uidC], [uidA \<mapsto> 1, uidB \<mapsto> 2, uidC \<mapsto> 3])"
  by (simp add: abrir_y_listar_def obtener_lista_uids_con_mapa_def env_ABC_def env_ok_def
      bytes_decode_def cpython_def decode_codecs_def codecs_def lit_def blit_def Let_def set_add_def
      int_ascii_def natural_def es_espacio_def es_digito_def uidA_def uidB_def uidC_def)

lemma lista_solo_A:
  "abrir_y_listar cpython env_solo_A = Inr ([uidA], [uidA \<mapsto> 1])"
  by (simp add: abrir_y_listar_def obtener_lista_uids_con_mapa_def env_solo_A_def env_ok_def
      bytes_decode_def cpython_def decode_codecs_def codecs_def lit_def blit_def Let_def set_add_def
      int_ascii_def natural_def es_espacio_def es_digito_def uidA_def)

lemma lista_B_falla:
  "abrir_y_listar cpython env_B_falla = Inr ([uidA, uidB, uidC], [uidA \<mapsto> 1, uidB \<mapsto> 2, uidC \<mapsto> 3])"
  by (simp add: abrir_y_listar_def obtener_lista_uids_con_mapa_def env_B_falla_def env_ok_def
      bytes_decode_def cpython_def decode_codecs_def codecs_def lit_def blit_def Let_def set_add_def
      int_ascii_def natural_def es_espacio_def es_digito_def uidA_def uidB_def uidC_def)




lemma procesar_uid_C_solo:
  "procesar_uid cpython env_B_falla [uidA \<mapsto> 1, uidB \<mapsto> 2, uidC \<mapsto> 3] uidC state_inicial
     = (None,
        state_inicial\<lparr>ultimo_remitente := Some (lit ''jane@x.com''), ultimo_asunto := Some (lit ''Hola'')\<rparr>,
        [Mensaje ChatConfigurado
           (Alerta (lit ''Jane Doe <jane@x.com>'') (lit ''Hola'')
              (lit ''Jane informa de una impresora averiada.''))])"
  by (simp add: procesar_uid_def env_B_falla_def env_ok_def msg_C_def Let_def uids_distintos
      obtener_asunto_y_remitente_def asunto_decodificado_def decodificar_texto_def
      cabecera_truthy_def
      obtener_cuerpo_def encoding_or_utf8_def cpython_def decode_codecs_def codecs_def blit_def
      preguntar_a_gemini_def send_message_def email_limpio_def lit_def)

lemma procesar_uid_C:
  "procesar_uid cpython env_ABC [uidA \<mapsto> 1, uidB \<mapsto> 2, uidC \<mapsto> 3] uidC state_inicial
     = (None, s_pendiente,
        [Mensaje ChatConfigurado
           (Alerta (lit ''Jane Doe <jane@x.com>'') (lit ''Hola'')
              (lit ''Jane informa de una impresora averiada.''))])"
  by (simp add: procesar_uid_def env_ABC_def env_ok_def msg_C_def Let_def uids_distintos
      obtener_asunto_y_remitente_def asunto_decodificado_def decodificar_texto_def
      cabecera_truthy_def
      obtener_cuerpo_def encoding_or_utf8_def cpython_def decode_codecs_def codecs_def blit_def
      preguntar_a_gemini_def send_message_def email_limpio_def lit_def s_pendiente_def
      state_inicial_def)

lemma ciclo_inicial:
  "ciclo cpython env_AB vigia_inicial state_inicial = (v_AB, state_inicial, [])"
  by (simp add: ciclo_def lista_AB vigia_inicial_def v_AB_def cerrar_def Let_def)
     (simp add: env_AB_def env_ok_def)

lemma ciclo_C:
  "ciclo cpython env_ABC v_AB state_inicial
     = (v_AB\<lparr>uids_conocidos := [uidA, uidB, uidC]\<rparr>, s_pendiente,
        [Mensaje ChatConfigurado
           (Alerta (lit ''Jane Doe <jane@x.com>'') (lit ''Hola'')
              (lit ''Jane informa de una impresora averiada.''))])"
proof -
  have v: "\<not> primera_vuelta v_AB" by (simp add: v_AB_def)
  have r: "set_resta (fst ([uidA, uidB, uidC], [uidA \<mapsto> (1::int), uidB \<mapsto> 2, uidC \<mapsto> 3]))
             (uids_conocidos v_AB) = [uidC]"
    by (simp add: set_resta_def v_AB_def uids_distintos)
  have o: "orden cpython [uidC] = [uidC]" by (simp add: cpython_def)
  have p: "procesar_nuevos cpython env_ABC
             (snd ([uidA, uidB, uidC], [uidA \<mapsto> (1::int), uidB \<mapsto> 2, uidC \<mapsto> 3]))
             (orden cpython [uidC]) state_inicial
           = (None, s_pendiente,
              [Mensaje ChatConfigurado
                 (Alerta (lit ''Jane Doe <jane@x.com>'') (lit ''Hola'')
                    (lit ''Jane informa de una impresora averiada.''))])"
    by (simp add: o procesar_uid_C)
  have q: "pop_quit env_ABC = None" by (simp add: env_ABC_def env_ok_def)
  from ciclo_con_nuevos [OF lista_ABC v r _ p] show ?thesis
    by (simp add: cerrar_def q)
qed

subsection \<open>A failure while one message is processed\<close>

text \<open>
  C1, as stated, fails. The watcher knows A; the server lists A, B and C; the loop
  reaches B before C; fetching B raises, while C alone would be fetched and
  announced without error. The cycle stops at B: its only output is the log entry,
  C is neither fetched nor announced, and the known identifiers stay as they were.
\<close>

theorem ciclo_abandona_restantes:
  "set_resta [uidA, uidB, uidC] (uids_conocidos v_A) = [uidB, uidC]
   \<and> pop_retr env_B_falla 2 = Inl (Externa (lit ''connection reset''))
   \<and> fst (procesar_uid cpython env_B_falla [uidA \<mapsto> 1, uidB \<mapsto> 2, uidC \<mapsto> 3] uidC state_inicial) = None
   \<and> ciclo cpython env_B_falla v_A state_inicial
       = (v_A, state_inicial, [LogError Vigilancia (Externa (lit ''connection reset''))])"
proof -
  have a: "set_resta [uidA, uidB, uidC] (uids_conocidos v_A) = [uidB, uidC]"
    by (simp add: set_resta_def v_A_def uids_distintos)
  have b: "pop_retr env_B_falla 2 = Inl (Externa (lit ''connection reset''))"
    by (simp add: env_B_falla_def)
  have c: "procesar_uid cpython env_B_falla [uidA \<mapsto> 1, uidB \<mapsto> 2, uidC \<mapsto> 3] uidB state_inicial
             = (Some (Externa (lit ''connection reset'')), state_inicial, [])"
    by (simp add: procesar_uid_def b uids_distintos)
  have o: "orden cpython [uidB, uidC] = [uidB, uidC]" by (simp add: cpython_def)
  have p: "procesar_nuevos cpython env_B_falla (snd ([uidA, uidB, uidC], [uidA \<mapsto> (1::int), uidB \<mapsto> 2, uidC \<mapsto> 3]))
             (orden cpython [uidB, uidC]) state_inicial
           = (Some (Externa (lit ''connection reset'')), state_inicial, [])"
    by (simp add: o c)
  have v: "\<not> primera_vuelta v_A" by (simp add: v_A_def)
  have d: "ciclo cpython env_B_falla v_A state_inicial
       = (v_A, state_inicial, [LogError Vigilancia (Externa (lit ''connection reset''))])"
    using ciclo_con_nuevos [OF lista_B_falla v _ _ p] a by simp
  show ?thesis using a b d by (simp add: procesar_uid_C_solo)
qed

text \<open>
  C1, amended. After the initial sync, when the step for one new identifier raises
  (its fetch or the push of its alert), the cycle ends there: the identifiers that
  the loop enumerates after it are not processed, the outputs are those of the
  identifiers before it and of the failing step followed by one log entry, and the
  known identifiers are unchanged.
\<close>

theorem ciclo_aborta:
  assumes "abrir_y_listar rt env = Inr lista"
      and "\<not> primera_vuelta v"
      and "orden rt (set_resta (fst lista) (uids_conocidos v)) = pre @ uid # post"
      and "procesar_nuevos rt env (snd lista) pre s = (None, s1, out1)"
      and "procesar_uid rt env (snd lista) uid s1 = (Some e, s2, out2)"
      and "set_resta (fst lista) (uids_conocidos v) \<noteq> []"
  shows "ciclo rt env v s = (v, s2, out1 @ out2 @ [LogError Vigilancia e])"
  using assms procesar_nuevos_aborta [OF assms(4,5), of post]
  by (simp add: ciclo_def Let_def)

theorem ciclo_aborta_witness:
  "abrir_y_listar cpython env_B_falla = Inr ([uidA, uidB, uidC], [uidA \<mapsto> 1, uidB \<mapsto> 2, uidC \<mapsto> 3])
   \<and> orden cpython (set_resta [uidA, uidB, uidC] (uids_conocidos v_A)) = [] @ uidB # [uidC]
   \<and> ciclo cpython env_B_falla v_A state_inicial
       = (v_A, state_inicial, [LogError Vigilancia (Externa (lit ''connection reset''))])"
proof -
  let ?lista = "([uidA, uidB, uidC], [uidA \<mapsto> (1::int), uidB \<mapsto> 2, uidC \<mapsto> 3])"
  have h1: "abrir_y_listar cpython env_B_falla = Inr ?lista" by (rule lista_B_falla)
  have h2: "\<not> primera_vuelta v_A" by (simp add: v_A_def)
  have r: "set_resta [uidA, uidB, uidC] (uids_conocidos v_A) = [uidB, uidC]"
    by (simp add: set_resta_def v_A_def uids_distintos)
  have h3: "orden cpython (set_resta (fst ?lista) (uids_conocidos v_A)) = [] @ uidB # [uidC]"
    by (simp add: r cpython_def)
  have h4: "procesar_nuevos cpython env_B_falla (snd ?lista) [] state_inicial = (None, state_inicial, [])"
    by simp
  have h5: "procesar_uid cpython env_B_falla (snd ?lista) uidB state_inicial
             = (Some (Externa (lit ''connection reset'')), state_inicial, [])"
    by (simp add: procesar_uid_def env_B_falla_def uids_distintos)
  have h6: "set_resta (fst ?lista) (uids_conocidos v_A) \<noteq> []" by (simp add: r)
  from ciclo_aborta [OF h1 h2 h3 h4 h5 h6] h1 h3 show ?thesis by simp
qed

subsection \<open>The known identifiers after a cycle\<close>

text \<open>
  C2, as stated, fails. The watcher knows A and B, B has been deleted and the server
  lists A alone; the cycle succeeds, detects nothing new and leaves the known
  identifiers at A and B, which is not a subset of the listing.
\<close>

theorem ciclo_no_resincroniza:
  "abrir_y_listar cpython env_solo_A = Inr ([uidA], [uidA \<mapsto> 1])
   \<and> ciclo cpython env_solo_A v_AB state_inicial = (v_AB, state_inicial, [])
   \<and> uids_conocidos v_AB = [uidA, uidB]
   \<and> \<not> set (uids_conocidos (fst (ciclo cpython env_solo_A v_AB state_inicial))) \<subseteq> set [uidA]"
proof -
  have a: "\<not> primera_vuelta v_AB" and b: "uids_conocidos v_AB = [uidA, uidB]"
    by (simp_all add: v_AB_def)
  have c: "set_resta (fst ([uidA], [uidA \<mapsto> (1::int)])) (uids_conocidos v_AB) = []"
    by (simp add: set_resta_def b)
  have d: "ciclo cpython env_solo_A v_AB state_inicial = (v_AB, state_inicial, [])"
    using ciclo_sin_nuevos [OF lista_solo_A a c, of state_inicial]
    by (simp add: cerrar_def env_solo_A_def env_ok_def)
  show ?thesis using lista_solo_A b d uids_distintos by simp
qed

text \<open>
  C2, amended. After a cycle whose connection, authentication and listing succeed,
  the known identifiers are the full current listing if the cycle is the initial
  sync, or if it detected at least one new identifier and processed all of them
  without an exception; otherwise they keep their previous value. Unless the
  processing raised, the listing is then a subset of the known identifiers.
\<close>

theorem ciclo_conocidos:
  assumes "abrir_y_listar rt env = Inr lista"
  shows "uids_conocidos (fst (ciclo rt env v s)) =
           (if primera_vuelta v
               \<or> (set_resta (fst lista) (uids_conocidos v) \<noteq> []
                  \<and> fst (procesar_nuevos rt env (snd lista)
                            (orden rt (set_resta (fst lista) (uids_conocidos v))) s) = None)
            then fst lista else uids_conocidos v)
         \<and> (primera_vuelta v \<or> set_resta (fst lista) (uids_conocidos v) = []
              \<or> fst (procesar_nuevos rt env (snd lista)
                        (orden rt (set_resta (fst lista) (uids_conocidos v))) s) = None
            \<longrightarrow> set (fst lista) \<subseteq> set (uids_conocidos (fst (ciclo rt env v s))))"
proof -
  let ?nuevos = "set_resta (fst lista) (uids_conocidos v)"
  let ?p = "procesar_nuevos rt env (snd lista) (orden rt ?nuevos) s"
  have cerrar_v: "\<And>r. fst (cerrar env r) = fst r"
    by (simp add: cerrar_def split: option.splits)
  have vacio: "?nuevos = [] \<Longrightarrow> set (fst lista) \<subseteq> set (uids_conocidos v)"
    by (auto simp: set_resta_def filter_empty_conv)
  show ?thesis
  proof (cases "primera_vuelta v")
    case True
    with assms show ?thesis by (simp add: ciclo_def Let_def cerrar_v)
  next
    case False
    show ?thesis
    proof (cases "?nuevos = []")
      case True
      with False assms vacio show ?thesis by (simp add: ciclo_def Let_def cerrar_v)
    next
      case nv: False
      show ?thesis
      proof (cases ?p rule: prod_cases3)
        case (fields x s' out)
        with False nv assms show ?thesis
          by (cases x) (simp_all add: ciclo_def Let_def cerrar_v)
      qed
    qed
  qed
qed

theorem ciclo_conocidos_witness:
  "abrir_y_listar cpython env_solo_A = Inr ([uidA], [uidA \<mapsto> 1])
   \<and> uids_conocidos (fst (ciclo cpython env_solo_A v_AB state_inicial)) = [uidA, uidB]
   \<and> set [uidA] \<subseteq> set (uids_conocidos (fst (ciclo cpython env_solo_A v_AB state_inicial)))"
proof -
  have b: "uids_conocidos v_AB = [uidA, uidB]" "\<not> primera_vuelta v_AB"
    by (simp_all add: v_AB_def)
  have c: "set_resta [uidA] [uidA, uidB] = []"
    by (simp add: set_resta_def)
  from ciclo_conocidos [OF lista_solo_A, of v_AB state_inicial] lista_solo_A
  show ?thesis by (simp add: b c)
qed

subsection \<open>One new message\<close>

















section \<open>Properties of the controller\<close>

lemmas prims = reply_to_def send_message_def send_chat_action_def

lemma turno_ticket_frame:
  "ultimo_remitente (fst (snd (turno_ticket env m u s))) = ultimo_remitente s
   \<and> ultimo_asunto (fst (snd (turno_ticket env m u s))) = ultimo_asunto s
   \<and> modo_respuesta (fst (snd (turno_ticket env m u s))) = modo_respuesta s"
  by (simp add: turno_ticket_def prims split: option.splits)

lemma turno_ticket_fin:
  "fst (turno_ticket env m u s) = None \<Longrightarrow> \<not> modo_ticket (fst (snd (turno_ticket env m u s)))"
  by (simp add: turno_ticket_def prims split: option.splits if_splits)

lemma turno_ticket_ok:
  "transporte_ok env \<Longrightarrow> fst (turno_ticket env m u s) = None"
  by (simp add: turno_ticket_def prims transporte_ok_def)

text \<open>If the transport raises in a ticket turn, the state is as it was before the turn.\<close>

lemma turno_ticket_raise:
  "fst (turno_ticket env m u s) \<noteq> None \<Longrightarrow> fst (snd (turno_ticket env m u s)) = s"
  by (simp add: turno_ticket_def prims split: option.splits if_splits)

lemma turno_respuesta_frame:
  "ultimo_remitente (fst (snd (turno_respuesta rt env m s))) = ultimo_remitente s
   \<and> ultimo_asunto (fst (snd (turno_respuesta rt env m s))) = ultimo_asunto s"
  by (simp add: turno_respuesta_def prims Let_def split: option.splits)

lemma turno_respuesta_fin:
  assumes "fst (turno_respuesta rt env m s) = None" "\<not> modo_ticket s"
  shows "\<not> modo_respuesta (fst (snd (turno_respuesta rt env m s)))"
    and "modo_ticket (fst (snd (turno_respuesta rt env m s)))
           = (enviado env m s \<and> alguna keywords_soporte (lower rt (borrador env m s)))"
  using assms
  by (simp_all add: turno_respuesta_def prims Let_def enviado_def borrador_def
      split: option.splits if_splits)

lemma turno_respuesta_ok:
  "transporte_ok env \<Longrightarrow> fst (turno_respuesta rt env m s) = None"
  by (simp add: turno_respuesta_def prims transporte_ok_def Let_def)

lemma turno_respuesta_inv:
  "\<not> modo_ticket s \<Longrightarrow>
   \<not> (modo_respuesta (fst (snd (turno_respuesta rt env m s)))
      \<and> modo_ticket (fst (snd (turno_respuesta rt env m s))))"
  by (simp add: turno_respuesta_def prims Let_def split: option.splits if_splits)

lemma turno_general_frame:
  "ultimo_remitente (fst (snd (turno_general env m u s))) = ultimo_remitente s
   \<and> ultimo_asunto (fst (snd (turno_general env m u s))) = ultimo_asunto s
   \<and> modo_ticket (fst (snd (turno_general env m u s))) = modo_ticket s"
  by (simp add: turno_general_def prims Let_def split: option.splits)

lemma responder_chat_frame:
  "ultimo_remitente (fst (snd (responder_chat rt env m s))) = ultimo_remitente s
   \<and> ultimo_asunto (fst (snd (responder_chat rt env m s))) = ultimo_asunto s"
  by (simp add: responder_chat_def Let_def turno_ticket_frame turno_respuesta_frame
      turno_general_frame)

lemma responder_chat_inv:
  "a_lo_sumo_uno s \<Longrightarrow> a_lo_sumo_uno (fst (snd (responder_chat rt env m s)))"
  using turno_respuesta_inv [of s rt env m] turno_ticket_frame [of env m "lower rt (msg_text m)" s]
    turno_general_frame [of env m "lower rt (msg_text m)" s]
  by (auto simp: a_lo_sumo_uno_def responder_chat_def Let_def)

lemma responder_chat_ok:
  "transporte_ok env \<Longrightarrow> fst (responder_chat rt env m s) = None"
  by (simp add: responder_chat_def Let_def turno_ticket_ok turno_respuesta_ok
      turno_general_def prims transporte_ok_def)

lemma procesar_uid_modos:
  "modo_respuesta (fst (snd (procesar_uid rt env um uid s))) = modo_respuesta s
   \<and> modo_ticket (fst (snd (procesar_uid rt env um uid s))) = modo_ticket s"
  by (simp add: procesar_uid_def Let_def send_message_def
      split: option.splits sum.splits cabecera.splits)

lemma procesar_nuevos_modos:
  "modo_respuesta (fst (snd (procesar_nuevos rt env um uids s))) = modo_respuesta s
   \<and> modo_ticket (fst (snd (procesar_nuevos rt env um uids s))) = modo_ticket s"
proof (induction uids arbitrary: s)
  case Nil
  then show ?case by simp
next
  case (Cons uid uids)
  show ?case
  proof (cases "procesar_uid rt env um uid s" rule: prod_cases3)
    case (fields x s1 out1)
    with procesar_uid_modos [of rt env um uid s]
    have m: "modo_respuesta s1 = modo_respuesta s" "modo_ticket s1 = modo_ticket s" by simp_all
    show ?thesis
    proof (cases x)
      case None
      with fields m Cons.IH [of s1] show ?thesis
        by (cases "procesar_nuevos rt env um uids s1" rule: prod_cases3) simp
    next
      case (Some e)
      with fields m show ?thesis by simp
    qed
  qed
qed

lemma ciclo_modos:
  "modo_respuesta (fst (snd (ciclo rt env v s))) = modo_respuesta s
   \<and> modo_ticket (fst (snd (ciclo rt env v s))) = modo_ticket s"
proof -
  have cerrar_s: "\<And>r. fst (snd (cerrar env r)) = fst (snd r)"
    by (simp add: cerrar_def split: option.splits)
  show ?thesis
  proof (cases "abrir_y_listar rt env")
    case (Inl e)
    then show ?thesis by (simp add: ciclo_def)
  next
    case (Inr lista)
    let ?p = "procesar_nuevos rt env (snd lista) (orden rt (set_resta (fst lista) (uids_conocidos v))) s"
    from procesar_nuevos_modos [of rt env "snd lista" _ s]
    have "modo_respuesta (fst (snd ?p)) = modo_respuesta s \<and> modo_ticket (fst (snd ?p)) = modo_ticket s" .
    with Inr show ?thesis
      by (cases ?p rule: prod_cases3) (simp add: ciclo_def Let_def cerrar_s split: option.splits)
  qed
qed

lemma paso_inv:
  "a_lo_sumo_uno (snd st) \<Longrightarrow> a_lo_sumo_uno (snd (paso rt st ev))"
proof (cases st)
  case (Pair v s)
  assume "a_lo_sumo_uno (snd st)"
  with Pair show ?thesis
    using responder_chat_inv [of s] ciclo_modos [of rt _ v s]
    by (cases ev) (auto simp: a_lo_sumo_uno_def)
qed

lemma foldl_paso_inv:
  "a_lo_sumo_uno (snd st) \<Longrightarrow> a_lo_sumo_uno (snd (foldl (paso rt) st evs))"
  by (induction evs arbitrary: st) (simp_all add: paso_inv)

lemma estado_inv: "a_lo_sumo_uno (estado rt evs)"
  unfolding estado_def by (rule foldl_paso_inv) (simp add: a_lo_sumo_uno_def state_inicial_def)

lemma turnos_frame:
  "ultimo_remitente (turnos rt ts s) = ultimo_remitente s
   \<and> ultimo_asunto (turnos rt ts s) = ultimo_asunto s"
proof (induction ts arbitrary: s)
  case Nil
  then show ?case by simp
next
  case (Cons t ts)
  then show ?case
    by (cases t) (simp add: responder_chat_frame)
qed

subsection \<open>The examples, evaluated\<close>

lemma transporte_env_ok: "transporte_ok env_ok"
  by (simp add: transporte_ok_def env_ok_def)

lemma turno_si:
  "responder_chat cpython env_ok msg_si s_pendiente
     = (None, s_redaccion, [Respuesta (ConGusto (lit ''jane@x.com''))])"
  by (simp add: responder_chat_def turno_general_def Let_def s_pendiente_def s_redaccion_def
      msg_si_def cpython_def lower_latin1_def afirmativas_respuesta_def si_def lit_def
      truthy_def reply_to_def env_ok_def fmt_def)

lemma estado_redaccion: "estado cpython eventos_redaccion = s_redaccion"
  by (simp add: estado_def eventos_redaccion_def ciclo_inicial ciclo_C turno_si)

lemma turno_dictado:
  "responder_chat cpython env_ok msg_dictado s_redaccion
     = (None, s_pendiente,
        [Mensaje (Chat 7) Redactando,
         Correo \<lparr>para = Some (lit ''jane@x.com''), asunto_re = lit ''Re: Hola'',
                 cuerpo = lit ''Jane informa de una impresora averiada.''\<rparr>,
         Respuesta (EnviadoCopia (lit ''Jane informa de una impresora averiada.''))])"
  by (simp add: responder_chat_def turno_respuesta_def Let_def s_pendiente_def s_redaccion_def
      msg_dictado_def cpython_def lower_latin1_def keywords_soporte_def lit_def
      reply_to_def send_message_def env_ok_def fmt_def preguntar_a_gemini_def
      enviar_correo_respuesta_def)

lemma turno_soporte:
  "responder_chat cpython env_soporte msg_dictado s_redaccion
     = (None, s_pendiente\<lparr>modo_ticket := True\<rparr>,
        [Mensaje (Chat 7) Redactando,
         Correo \<lparr>para = Some (lit ''jane@x.com''), asunto_re = lit ''Re: Hola'',
                 cuerpo = lit ''Jared comenta que puede abrir un ticket de soporte.''\<rparr>,
         Respuesta (EnviadoCopia (lit ''Jared comenta que puede abrir un ticket de soporte.'')),
         Mensaje (Chat 7) SugerenciaTicket])"
  by (simp add: responder_chat_def turno_respuesta_def Let_def s_pendiente_def s_redaccion_def
      msg_dictado_def cpython_def lower_latin1_def keywords_soporte_def lit_def
      reply_to_def send_message_def env_soporte_def env_ok_def fmt_def preguntar_a_gemini_def
      enviar_correo_respuesta_def)

lemma turno_no_ticket:
  "responder_chat cpython env_ok msg_no s_ticket = (None, s_pendiente, [Respuesta NoTicket])"
  by (simp add: responder_chat_def turno_ticket_def Let_def s_ticket_def s_pendiente_def
      msg_no_def cpython_def lower_latin1_def afirmativas_ticket_def si_def lit_def
      reply_to_def env_ok_def)

text \<open>With CPython's \<open>lower\<close>, the placeholder contains no support keyword.\<close>

lemma placeholder_sin_keywords:
  "alguna keywords_soporte (lower cpython ia_no_disponible) = False"
  by (simp add: keywords_soporte_def cpython_def lower_latin1_def ia_no_disponible_def lit_def)

subsection \<open>The ticket confirmation\<close>

lemma estado_ticket: "estado cpython eventos_ticket = s_ticket"
  by (simp add: estado_def eventos_ticket_def eventos_redaccion_def ciclo_inicial ciclo_C
      turno_si turno_soporte s_ticket_def)

lemma turno_reply_falla:
  "responder_chat cpython env_reply_falla msg_no s_ticket
     = (Some (Externa (lit ''telegram: connection error'')), s_ticket, [])"
  by (simp add: responder_chat_def turno_ticket_def Let_def s_ticket_def s_pendiente_def
      msg_no_def cpython_def lower_latin1_def afirmativas_ticket_def si_def lit_def
      reply_to_def env_reply_falla_def env_ok_def)

text \<open>
  C6, as stated, fails. In the state reached when a draft has offered a ticket, the
  operator answers \<open>No, gracias\<close> and the chat transport refuses the reply: the
  handler is left before the flag is cleared, and the controller is still in
  AwaitingTicketConfirmation after the turn.
\<close>

theorem ticket_atascado:
  "estado cpython eventos_ticket = s_ticket
   \<and> mode_of s_ticket = AwaitingTicketConfirmation
   \<and> responder_chat cpython env_reply_falla msg_no s_ticket
       = (Some (Externa (lit ''telegram: connection error'')), s_ticket, [])
   \<and> mode_of (fst (snd (responder_chat cpython env_reply_falla msg_no s_ticket)))
       = AwaitingTicketConfirmation"
  by (simp add: estado_ticket turno_reply_falla)
     (simp add: mode_of_def s_ticket_def s_pendiente_def)

text \<open>
  C6, amended. For every chat input received in AwaitingTicketConfirmation (the
  ticket flag set, the reply flag not), affirmative or not, the turn that runs to its
  end leaves the controller in Idle; and the turn does run to its end whenever the
  chat transport accepts its calls.
\<close>

theorem ticket_termina:
  assumes "modo_ticket s" and "\<not> modo_respuesta s"
  shows "(fst (responder_chat rt env m s) = None
            \<longrightarrow> mode_of (fst (snd (responder_chat rt env m s))) = Idle)
         \<and> (transporte_ok env \<longrightarrow> fst (responder_chat rt env m s) = None)"
  using assms turno_ticket_fin [of env m "lower rt (msg_text m)" s]
    turno_ticket_frame [of env m "lower rt (msg_text m)" s]
    turno_ticket_ok [of env m "lower rt (msg_text m)" s]
  by (simp add: responder_chat_def Let_def mode_of_def)

theorem ticket_termina_witness:
  "modo_ticket s_ticket \<and> \<not> modo_respuesta s_ticket \<and> transporte_ok env_ok
   \<and> fst (responder_chat cpython env_ok msg_no s_ticket) = None
   \<and> mode_of (fst (snd (responder_chat cpython env_ok msg_no s_ticket))) = Idle"
proof -
  have a: "modo_ticket s_ticket" and b: "\<not> modo_respuesta s_ticket"
    by (simp_all add: s_ticket_def s_pendiente_def)
  from ticket_termina [OF a b, of cpython env_ok msg_no] a b transporte_env_ok
  show ?thesis by simp
qed

subsection \<open>The two awaiting modes\<close>

text \<open>
  C7, as stated, fails. In the state reached by the initial sync, the poll that finds
  C and the operator's agreement to answer, a turn that begins in AwaitingReplyDraft,
  whose email is sent and whose drafted body contains \<open>ticket\<close>, ends in
  AwaitingTicketConfirmation, not in Idle.
\<close>

theorem redaccion_arma_ticket:
  "estado cpython eventos_redaccion = s_redaccion
   \<and> mode_of s_redaccion = AwaitingReplyDraft
   \<and> fst (responder_chat cpython env_soporte msg_dictado s_redaccion) = None
   \<and> mode_of (fst (snd (responder_chat cpython env_soporte msg_dictado s_redaccion)))
       = AwaitingTicketConfirmation"
  by (simp add: turno_soporte estado_redaccion)
     (simp add: mode_of_def s_redaccion_def s_pendiente_def)

text \<open>
  C7, amended. At every chat-turn boundary at most one of the two awaiting flags is
  set. A chat turn that begins in AwaitingTicketConfirmation and runs to its end ends
  in Idle; a chat turn that begins in AwaitingReplyDraft and runs to its end ends in
  AwaitingTicketConfirmation when the email was sent and the drafted body contains a
  support-incident keyword, and in Idle otherwise. A turn runs to its end whenever
  the chat transport accepts its calls.
\<close>

theorem modos_no_persisten:
  "a_lo_sumo_uno (estado rt evs)
   \<and> (fst (responder_chat rt env m (estado rt evs)) = None \<longrightarrow>
        (mode_of (estado rt evs) = AwaitingTicketConfirmation \<longrightarrow>
           mode_of (fst (snd (responder_chat rt env m (estado rt evs)))) = Idle)
        \<and> (mode_of (estado rt evs) = AwaitingReplyDraft \<longrightarrow>
             mode_of (fst (snd (responder_chat rt env m (estado rt evs))))
               = (if enviado env m (estado rt evs)
                     \<and> alguna keywords_soporte (lower rt (borrador env m (estado rt evs)))
                  then AwaitingTicketConfirmation else Idle)))
   \<and> (transporte_ok env \<longrightarrow> fst (responder_chat rt env m (estado rt evs)) = None)"
proof -
  let ?s = "estado rt evs"
  have inv: "a_lo_sumo_uno ?s" by (rule estado_inv)
  have t: "fst (responder_chat rt env m ?s) = None \<Longrightarrow> mode_of ?s = AwaitingTicketConfirmation
           \<Longrightarrow> mode_of (fst (snd (responder_chat rt env m ?s))) = Idle"
  proof -
    assume r: "fst (responder_chat rt env m ?s) = None" and "mode_of ?s = AwaitingTicketConfirmation"
    then have "modo_ticket ?s" by (simp add: mode_of_def split: if_splits)
    moreover with inv have "\<not> modo_respuesta ?s" by (auto simp: a_lo_sumo_uno_def)
    ultimately show ?thesis
      using turno_ticket_fin [of env m "lower rt (msg_text m)" ?s]
        turno_ticket_frame [of env m "lower rt (msg_text m)" ?s] r
      by (simp add: responder_chat_def Let_def mode_of_def)
  qed
  have d: "fst (responder_chat rt env m ?s) = None \<Longrightarrow> mode_of ?s = AwaitingReplyDraft
           \<Longrightarrow> mode_of (fst (snd (responder_chat rt env m ?s)))
               = (if enviado env m ?s \<and> alguna keywords_soporte (lower rt (borrador env m ?s))
                  then AwaitingTicketConfirmation else Idle)"
  proof -
    assume r: "fst (responder_chat rt env m ?s) = None" and "mode_of ?s = AwaitingReplyDraft"
    then have f: "\<not> modo_ticket ?s" "modo_respuesta ?s" by (simp_all add: mode_of_def split: if_splits)
    with r have "fst (turno_respuesta rt env m ?s) = None" by (simp add: responder_chat_def Let_def)
    from turno_respuesta_fin [OF this f(1)] f show ?thesis
      by (simp add: responder_chat_def Let_def mode_of_def)
  qed
  from inv t d responder_chat_ok [of env rt m ?s] show ?thesis by blast
qed

theorem modos_no_persisten_witness:
  "a_lo_sumo_uno (estado cpython eventos_redaccion)
   \<and> mode_of (estado cpython eventos_redaccion) = AwaitingReplyDraft
   \<and> transporte_ok env_ok
   \<and> fst (responder_chat cpython env_ok msg_dictado (estado cpython eventos_redaccion)) = None
   \<and> mode_of (fst (snd (responder_chat cpython env_ok msg_dictado
                           (estado cpython eventos_redaccion)))) = Idle"
proof -
  have m: "mode_of (estado cpython eventos_redaccion) = AwaitingReplyDraft"
    by (simp add: estado_redaccion mode_of_def s_redaccion_def s_pendiente_def)
  have k: "\<not> alguna keywords_soporte
               (lower cpython (borrador env_ok msg_dictado (estado cpython eventos_redaccion)))"
    by (simp add: borrador_def preguntar_a_gemini_def env_ok_def keywords_soporte_def
        cpython_def lower_latin1_def lit_def)
  from modos_no_persisten [of cpython eventos_redaccion env_ok msg_dictado] m k
    transporte_env_ok
  show ?thesis by simp
qed

subsection \<open>The pending sender and subject\<close>

text \<open>
  C9. No sequence of chat turns changes the pending sender or the pending subject,
  whether the turns return or raise. So when the controller is in Idle after them,
  with a pending sender that is a non-empty string, an affirmative input enters
  AwaitingReplyDraft again, for the same sender, whom the reply names.
\<close>

theorem pendientes_permanecen:
  "ultimo_remitente (turnos rt ts s) = ultimo_remitente s
   \<and> ultimo_asunto (turnos rt ts s) = ultimo_asunto s
   \<and> (mode_of (turnos rt ts s) = Idle \<and> truthy (ultimo_remitente s)
        \<and> alguna afirmativas_respuesta (lower rt (msg_text m))
      \<longrightarrow> mode_of (fst (snd (responder_chat rt env m (turnos rt ts s)))) = AwaitingReplyDraft
          \<and> ultimo_remitente (fst (snd (responder_chat rt env m (turnos rt ts s))))
              = ultimo_remitente s
          \<and> (fst (responder_chat rt env m (turnos rt ts s)) = None
               \<longrightarrow> snd (snd (responder_chat rt env m (turnos rt ts s)))
                     = [Respuesta (ConGusto (fmt (ultimo_remitente s)))]))"
proof -
  let ?s = "turnos rt ts s"
  have f: "ultimo_remitente ?s = ultimo_remitente s" "ultimo_asunto ?s = ultimo_asunto s"
    using turnos_frame [of rt ts s] by simp_all
  have g: "mode_of ?s = Idle \<Longrightarrow> truthy (ultimo_remitente s)
             \<Longrightarrow> alguna afirmativas_respuesta (lower rt (msg_text m))
           \<Longrightarrow> mode_of (fst (snd (responder_chat rt env m ?s))) = AwaitingReplyDraft
               \<and> (fst (responder_chat rt env m ?s) = None
                    \<longrightarrow> snd (snd (responder_chat rt env m ?s))
                          = [Respuesta (ConGusto (fmt (ultimo_remitente s)))])"
  proof -
    assume "mode_of ?s = Idle" and t: "truthy (ultimo_remitente s)"
      and a: "alguna afirmativas_respuesta (lower rt (msg_text m))"
    then have i: "\<not> modo_ticket ?s" "\<not> modo_respuesta ?s"
      by (simp_all add: mode_of_def split: if_splits)
    with t a f show ?thesis
      by (simp add: responder_chat_def Let_def turno_general_def reply_to_def mode_of_def
          split: option.splits)
  qed
  from f g responder_chat_frame [of rt env m ?s] show ?thesis by simp
qed

theorem pendientes_permanecen_witness:
  "ultimo_remitente (turnos cpython turnos_redaccion s_redaccion) = Some (lit ''jane@x.com'')
   \<and> ultimo_asunto (turnos cpython turnos_redaccion s_redaccion) = Some (lit ''Hola'')
   \<and> mode_of (turnos cpython turnos_redaccion s_redaccion) = Idle
   \<and> alguna afirmativas_respuesta (lower cpython (msg_text msg_si))
   \<and> mode_of (fst (snd (responder_chat cpython env_ok msg_si
                           (turnos cpython turnos_redaccion s_redaccion)))) = AwaitingReplyDraft
   \<and> snd (snd (responder_chat cpython env_ok msg_si (turnos cpython turnos_redaccion s_redaccion)))
       = [Respuesta (ConGusto (lit ''jane@x.com''))]"
proof -
  have t: "turnos cpython turnos_redaccion s_redaccion = s_pendiente"
    by (simp add: turnos_redaccion_def turno_dictado)
  have i: "mode_of (turnos cpython turnos_redaccion s_redaccion) = Idle"
    by (simp add: t mode_of_def s_pendiente_def)
  have r: "ultimo_remitente s_redaccion = Some (lit ''jane@x.com'')"
    "ultimo_asunto s_redaccion = Some (lit ''Hola'')"
    by (simp_all add: s_redaccion_def s_pendiente_def)
  have y: "truthy (ultimo_remitente s_redaccion)"
    by (simp add: r truthy_def lit_def)
  have a: "alguna afirmativas_respuesta (lower cpython (msg_text msg_si))"
    by (simp add: msg_si_def cpython_def lower_latin1_def afirmativas_respuesta_def si_def lit_def)
  have n: "fst (responder_chat cpython env_ok msg_si (turnos cpython turnos_redaccion s_redaccion)) = None"
    by (simp add: t turno_si)
  from pendientes_permanecen [of cpython turnos_redaccion s_redaccion msg_si env_ok] i y a n r
  show ?thesis by (simp add: fmt_def)
qed

subsection \<open>A reply turn without the language model\<close>

text \<open>
  C10. In a reply turn that reaches the model call (the transport accepted the
  opening message) and whose model call raises, the send is not abandoned: the email
  handed to the SMTP server is the one addressed to the pending sender whose body is
  the placeholder, no other email is sent, and a failure of the SMTP server is
  logged. The ticket flag is set only if that email was sent and the keyword scan
  finds a keyword in the lower-cased placeholder, and it is set in that case when
  the transport accepts the calls of the turn: the scan runs over the placeholder.
\<close>

theorem ia_caida_envia_placeholder:
  assumes "mode_of s = AwaitingReplyDraft"
      and "tg_send_message env (Chat (chat_id m)) Redactando = None"
      and "generate_content env (PromptRedaccion (ultimo_remitente s) (ultimo_asunto s) (msg_text m))
             = Inl e"
  shows "(smtp_send env (correo_no_disponible s) = None
            \<longrightarrow> Correo (correo_no_disponible s) \<in> set (snd (snd (responder_chat rt env m s))))
         \<and> (\<forall>c. Correo c \<in> set (snd (snd (responder_chat rt env m s)))
                \<longrightarrow> c = correo_no_disponible s)
         \<and> (\<forall>x. smtp_send env (correo_no_disponible s) = Some x
                \<longrightarrow> LogError SMTP x \<in> set (snd (snd (responder_chat rt env m s))))
         \<and> (modo_ticket (fst (snd (responder_chat rt env m s)))
              \<longrightarrow> smtp_send env (correo_no_disponible s) = None
                  \<and> alguna keywords_soporte (lower rt ia_no_disponible))
         \<and> (transporte_ok env \<and> smtp_send env (correo_no_disponible s) = None
              \<and> alguna keywords_soporte (lower rt ia_no_disponible)
              \<longrightarrow> modo_ticket (fst (snd (responder_chat rt env m s))))"
proof -
  from assms(1) have f: "\<not> modo_ticket s" "modo_respuesta s"
    by (simp_all add: mode_of_def split: if_splits)
  have r: "responder_chat rt env m s = turno_respuesta rt env m s"
    using f by (simp add: responder_chat_def Let_def)
  show ?thesis
    unfolding r using assms(2,3) f
    by (auto simp: turno_respuesta_def prims Let_def preguntar_a_gemini_def
        enviar_correo_respuesta_def correo_no_disponible_def transporte_ok_def
        split: option.splits if_splits)
qed

theorem ia_caida_envia_placeholder_witness:
  "mode_of s_redaccion = AwaitingReplyDraft
   \<and> generate_content env_sin_ia
        (PromptRedaccion (ultimo_remitente s_redaccion) (ultimo_asunto s_redaccion)
           (msg_text msg_dictado)) = Inl (Externa (lit ''503 unavailable''))
   \<and> Correo \<lparr>para = Some (lit ''jane@x.com''), asunto_re = lit ''Re: Hola'',
              cuerpo = ia_no_disponible\<rparr>
       \<in> set (snd (snd (responder_chat cpython env_sin_ia msg_dictado s_redaccion)))
   \<and> \<not> modo_ticket (fst (snd (responder_chat cpython env_sin_ia msg_dictado s_redaccion)))"
proof -
  have m: "mode_of s_redaccion = AwaitingReplyDraft"
    by (simp add: mode_of_def s_redaccion_def s_pendiente_def)
  have s: "tg_send_message env_sin_ia (Chat (chat_id msg_dictado)) Redactando = None"
    by (simp add: env_sin_ia_def env_ok_def)
  have g: "generate_content env_sin_ia
        (PromptRedaccion (ultimo_remitente s_redaccion) (ultimo_asunto s_redaccion)
           (msg_text msg_dictado)) = Inl (Externa (lit ''503 unavailable''))"
    by (simp add: env_sin_ia_def)
  have c: "correo_no_disponible s_redaccion
             = \<lparr>para = Some (lit ''jane@x.com''), asunto_re = lit ''Re: Hola'',
                cuerpo = ia_no_disponible\<rparr>"
    by (simp add: correo_no_disponible_def s_redaccion_def s_pendiente_def fmt_def lit_def)
  have e: "smtp_send env_sin_ia (correo_no_disponible s_redaccion) = None"
    by (simp add: env_sin_ia_def env_ok_def)
  from ia_caida_envia_placeholder [OF m s g, of cpython] placeholder_sin_keywords m g c e
  show ?thesis by auto
qed

section \<open>Properties of the start\<close>




end
